theory Spec2Isabelle
  imports Main "HOL-Library.Word"
begin

section \<open>Go values used by the health checker\<close>

text \<open>
  Go \<open>error\<close> values, as far as the code inspects them. \<open>UrlError op u e\<close> is a
  \<open>*url.Error\<close> with its fields \<open>Op\<close>, \<open>URL\<close> and \<open>Err\<close>; \<open>WithMessage e m\<close> is
  the result of \<open>errors.Wrap(e, m)\<close> for an error \<open>e\<close> that is not nil; \<open>PlainError m\<close>
  is any other error. A nil error is \<open>None\<close> of \<open>go_error option\<close>. \<open>uint\<close> has the 64
  bits it has on a 64-bit platform.
\<close>

datatype go_error =
    PlainError string
  | UrlError string string go_error
  | WithMessage go_error string

type_synonym uint64 = "64 word"
type_synonym uint = "64 word"

text \<open>\<open>errors.As(err, &urlErr)\<close>: the first \<open>*url.Error\<close> on the unwrap chain.\<close>

fun errors_As_UrlError :: "go_error \<Rightarrow> (string \<times> string \<times> go_error) option" where
  "errors_As_UrlError (PlainError m) = None"
| "errors_As_UrlError (UrlError opn u e) = Some (opn, u, e)"
| "errors_As_UrlError (WithMessage e m) = errors_As_UrlError e"

text \<open>
  \<open>urlErr.URL = ""\<close>: \<open>urlErr\<close> points into the chain of \<open>err\<close>, so the assignment
  changes \<open>err\<close> itself, at the node \<open>errors.As\<close> found.
\<close>

fun clear_URL :: "go_error \<Rightarrow> go_error" where
  "clear_URL (PlainError m) = PlainError m"
| "clear_URL (UrlError opn u e) = UrlError opn [] e"
| "clear_URL (WithMessage e m) = WithMessage (clear_URL e) m"

subsection \<open>Logging\<close>

text \<open>
  A \<open>*slog.Logger\<close> is the level of its handler and the attributes added by \<open>With\<close>.
  What a function logs is returned as the list of the calls it makes on its logger, in
  order.
\<close>

datatype log_level = LevelDebug | LevelInfo | LevelWarn | LevelError

record slog_Logger =
  handler_level :: log_level
  attrs :: "(string \<times> string) list"

definition With :: "slog_Logger \<Rightarrow> string \<Rightarrow> string \<Rightarrow> slog_Logger" where
  "With l k v = l\<lparr>attrs := attrs l @ [(k, v)]\<rparr>"

datatype log_value = ErrorValue go_error | Uint64Value uint64

record log_record =
  log_logger :: slog_Logger
  log_lvl :: log_level
  log_msg :: string
  log_key :: string
  log_val :: log_value

definition slog_Error :: "slog_Logger \<Rightarrow> string \<Rightarrow> string \<Rightarrow> go_error \<Rightarrow> log_record" where
  "slog_Error l m k e =
     \<lparr>log_logger = l, log_lvl = LevelError, log_msg = m, log_key = k, log_val = ErrorValue e\<rparr>"

definition slog_Info :: "slog_Logger \<Rightarrow> string \<Rightarrow> string \<Rightarrow> uint64 \<Rightarrow> log_record" where
  "slog_Info l m k v =
     \<lparr>log_logger = l, log_lvl = LevelInfo, log_msg = m, log_key = k, log_val = Uint64Value v\<rparr>"

definition slog_Debug :: "slog_Logger \<Rightarrow> string \<Rightarrow> string \<Rightarrow> uint64 \<Rightarrow> log_record" where
  "slog_Debug l m k v =
     \<lparr>log_logger = l, log_lvl = LevelDebug, log_msg = m, log_key = k, log_val = Uint64Value v\<rparr>"

section \<open>The health checker (internal/proxy/healthchecker.go)\<close>

definition userAgent :: string where
  "userAgent = ''rpc-gateway-health-check''"

record HealthCheckerConfig =
  URL :: string
  Name :: string
  Logger :: slog_Logger
  Interval :: int
  Timeout :: int
  FailureThreshold :: uint
  SuccessThreshold :: uint

text \<open>An \<open>*rpc.Client\<close>: the endpoint it was dialled for and the headers set on it.\<close>

record rpc_Client =
  endpoint :: string
  headers :: "(string \<times> string) list"

definition SetHeader :: "rpc_Client \<Rightarrow> string \<Rightarrow> string \<Rightarrow> rpc_Client" where
  "SetHeader c k v = c\<lparr>headers := (k, v) # filter (\<lambda>kv. fst kv \<noteq> k) (headers c)\<rparr>"

record HealthChecker =
  client :: rpc_Client
  config :: HealthCheckerConfig
  logger :: slog_Logger
  blockNumber :: uint64
  gasLimit :: uint64
  isHealthy :: bool

text \<open>
  \<open>NewHealthChecker\<close>. \<open>rpc.Dial\<close> is the outside world: it is the parameter \<open>Dial\<close>,
  from the URL to an error or a client. The fields the Go literal leaves out
  (\<open>blockNumber\<close>, \<open>gasLimit\<close>) are zero.
\<close>

definition NewHealthChecker ::
  "(string \<Rightarrow> go_error + rpc_Client) \<Rightarrow> HealthCheckerConfig \<Rightarrow> string \<Rightarrow> go_error + HealthChecker"
where
  "NewHealthChecker Dial cfg networkName =
     (case Dial (URL cfg) of
        Inl err \<Rightarrow> Inl err
      | Inr c \<Rightarrow>
          Inr \<lparr>client = SetHeader c ''User-Agent'' userAgent,
               config = cfg,
               logger = With (With (With (Logger cfg) ''provider'' (Name cfg))
                                 ''network'' networkName) ''process'' ''healthcheck'',
               blockNumber = 0,
               gasLimit = 0,
               isHealthy = True\<rparr>)"

text \<open>
  \<open>checkBlockNumber\<close>. The outcome of \<open>h.client.CallContext(c, &blockNumber,
  "eth_blockNumber")\<close> is the parameter \<open>r\<close>: \<open>Inl err\<close> or \<open>Inr blockNumber\<close>. The result
  is what was logged and the pair the Go function returns.
\<close>

definition checkBlockNumber ::
  "HealthChecker \<Rightarrow> go_error + uint64 \<Rightarrow> log_record list \<times> uint64 \<times> go_error option"
where
  "checkBlockNumber h r =
     (case r of
        Inl err \<Rightarrow>
          (let err' = (case errors_As_UrlError err of
                         Some urlErr \<Rightarrow> clear_URL err
                       | None \<Rightarrow> err)
           in ([slog_Error (logger h) ''could not fetch block number'' ''error'' err'],
               0, Some err'))
      | Inr bn \<Rightarrow>
          ([slog_Info (logger h) ''fetch block number completed'' ''blockNumber'' bn],
           bn, None))"

text \<open>
  \<open>checkGasLimit\<close>. \<open>performGasLeftCall\<close> is not part of this file; its outcome, the pair
  of a value and an error, is the parameter \<open>r\<close>.
\<close>

definition checkGasLimit ::
  "HealthChecker \<Rightarrow> uint64 \<times> go_error option \<Rightarrow> log_record list \<times> uint64 \<times> go_error option"
where
  "checkGasLimit h r =
     (case snd r of
        Some err \<Rightarrow>
          ([slog_Error (logger h) ''could not fetch gas limit'' ''error'' err], fst r, Some err)
      | None \<Rightarrow>
          ([slog_Debug (logger h) ''fetch gas limit completed'' ''gasLimit'' (fst r)],
           fst r, None))"

text \<open>\<open>checkAndSetBlockNumberHealth\<close>: on an error it returns before taking the lock.\<close>

definition checkAndSetBlockNumberHealth ::
  "HealthChecker \<Rightarrow> go_error + uint64 \<Rightarrow> log_record list \<times> HealthChecker"
where
  "checkAndSetBlockNumberHealth h r =
     (case checkBlockNumber h r of
        (lg, bn, Some err) \<Rightarrow> (lg, h)
      | (lg, bn, None) \<Rightarrow> (lg, h\<lparr>blockNumber := bn\<rparr>))"

text \<open>\<open>checkAndSetGasLeftHealth\<close>, the function no caller reaches.\<close>

definition checkAndSetGasLeftHealth ::
  "HealthChecker \<Rightarrow> uint64 \<times> go_error option \<Rightarrow> log_record list \<times> HealthChecker"
where
  "checkAndSetGasLeftHealth h r =
     (case checkGasLimit h r of
        (lg, gl, Some err) \<Rightarrow> (lg, h\<lparr>isHealthy := False\<rparr>)
      | (lg, gl, None) \<Rightarrow> (lg, h\<lparr>gasLimit := gl, isHealthy := True\<rparr>))"

text \<open>
  \<open>CheckAndSetHealth\<close> starts \<open>checkAndSetBlockNumberHealth\<close> and nothing else: the call
  of \<open>checkAndSetGasLeftHealth\<close> is commented out in the source. The goroutine writes
  the state once, under the lock; the model runs it to its end before the next one.
\<close>

definition CheckAndSetHealth ::
  "HealthChecker \<Rightarrow> go_error + uint64 \<Rightarrow> log_record list \<times> HealthChecker"
where
  "CheckAndSetHealth h r = checkAndSetBlockNumberHealth h r"

text \<open>
  The \<open>for\<close>/\<open>select\<close> loop of \<open>Start\<close>: one \<open>CheckAndSetHealth\<close> for each tick, until
  the context is done. The list holds the outcome of the probe of each tick that came
  before the context was done.
\<close>

fun ticker_loop ::
  "HealthChecker \<Rightarrow> (go_error + uint64) list \<Rightarrow> log_record list \<times> HealthChecker"
where
  "ticker_loop h [] = ([], h)"
| "ticker_loop h (r # rs) =
     (case CheckAndSetHealth h r of
        (lg, h') \<Rightarrow> (case ticker_loop h' rs of (lgs, h'') \<Rightarrow> (lg @ lgs, h'')))"

text \<open>\<open>Start\<close>: one probe at once, with outcome \<open>r\<close>, then the loop.\<close>

definition Start ::
  "HealthChecker \<Rightarrow> go_error + uint64 \<Rightarrow> (go_error + uint64) list
     \<Rightarrow> log_record list \<times> HealthChecker"
where
  "Start h r rs =
     (case CheckAndSetHealth h r of
        (lg, h') \<Rightarrow> (case ticker_loop h' rs of (lgs, h'') \<Rightarrow> (lg @ lgs, h'')))"

definition IsHealthy :: "HealthChecker \<Rightarrow> bool" where
  "IsHealthy h = isHealthy h"

definition BlockNumber :: "HealthChecker \<Rightarrow> uint64" where
  "BlockNumber h = blockNumber h"

definition GasLimit :: "HealthChecker \<Rightarrow> uint64" where
  "GasLimit h = gasLimit h"

text \<open>
  The states of a checker in a run of the program: the one \<open>NewHealthChecker\<close> returns,
  and the state after each \<open>CheckAndSetHealth\<close> that \<open>Start\<close> makes.
\<close>

inductive reachable :: "HealthChecker \<Rightarrow> bool" where
  reachable_new: "NewHealthChecker Dial cfg networkName = Inr h \<Longrightarrow> reachable h"
| reachable_probe: "reachable h \<Longrightarrow> reachable (snd (CheckAndSetHealth h r))"

section \<open>The gateway (package rpcgateway)\<close>

text \<open>
  The configuration types are declared outside the files at hand; the records hold the
  fields the code reads: a target's name and URL, the health check tunables, the proxy's
  port.
\<close>

record NodeProviderConfig =
  target_Name :: string
  target_URL :: string

record HealthCheckConfig =
  hc_Interval :: int
  hc_Timeout :: int
  hc_FailureThreshold :: uint
  hc_SuccessThreshold :: uint

record ProxyConfig =
  Port :: string

record RPCGatewayConfig =
  gw_Name :: string
  gw_Proxy :: ProxyConfig
  gw_Targets :: "NodeProviderConfig list"
  gw_HealthChecks :: HealthCheckConfig

record HealthCheckManagerConfig =
  hcm_Targets :: "NodeProviderConfig list"
  hcm_Config :: HealthCheckConfig
  hcm_Logger :: slog_Logger

record HealthCheckManager =
  hcs :: "HealthChecker list"

text \<open>
  Modelled from the spec: \<open>proxy.NewHealthCheckManager\<close>, which the files at hand call
  and do not contain. The spec, 4.3: the manager "owns the full set of Health Checkers
  (one construction failure for any one target [...] fails the whole manager's
  construction [...] rather than silently running with fewer targets)", and 2: it owns
  "one per configured target". So it builds a checker for each target in turn, with the
  target's name and URL and the shared tunables, and returns the error of the first
  construction that fails.
\<close>

definition checker_config :: "HealthCheckManagerConfig \<Rightarrow> NodeProviderConfig \<Rightarrow> HealthCheckerConfig"
where
  "checker_config mc t =
     \<lparr>URL = target_URL t,
      Name = target_Name t,
      Logger = hcm_Logger mc,
      Interval = hc_Interval (hcm_Config mc),
      Timeout = hc_Timeout (hcm_Config mc),
      FailureThreshold = hc_FailureThreshold (hcm_Config mc),
      SuccessThreshold = hc_SuccessThreshold (hcm_Config mc)\<rparr>"

fun new_checkers ::
  "(string \<Rightarrow> go_error + rpc_Client) \<Rightarrow> HealthCheckManagerConfig \<Rightarrow> string
     \<Rightarrow> NodeProviderConfig list \<Rightarrow> go_error + HealthChecker list"
where
  "new_checkers Dial mc networkName [] = Inr []"
| "new_checkers Dial mc networkName (t # ts) =
     (case NewHealthChecker Dial (checker_config mc t) networkName of
        Inl err \<Rightarrow> Inl err
      | Inr hc \<Rightarrow>
          (case new_checkers Dial mc networkName ts of
             Inl err \<Rightarrow> Inl err
           | Inr cs \<Rightarrow> Inr (hc # cs)))"

definition NewHealthCheckManager ::
  "(string \<Rightarrow> go_error + rpc_Client) \<Rightarrow> HealthCheckManagerConfig \<Rightarrow> string
     \<Rightarrow> go_error + HealthCheckManager"
where
  "NewHealthCheckManager Dial mc networkName =
     (case new_checkers Dial mc networkName (hcm_Targets mc) of
        Inl err \<Rightarrow> Inl err
      | Inr cs \<Rightarrow> Inr \<lparr>hcs = cs\<rparr>)"

text \<open>The argument of \<open>proxy.NewProxy\<close>, as \<open>NewRPCGateway\<close> fills it.\<close>

record proxy_Config =
  pc_Proxy :: ProxyConfig
  pc_Targets :: "NodeProviderConfig list"
  pc_HealthChecks :: HealthCheckConfig
  pc_HealthcheckManager :: HealthCheckManager
  pc_Name :: string

record http_Server =
  Addr :: string
  WriteTimeout :: int
  ReadTimeout :: int
  ReadHeaderTimeout :: int

record ('p, 'm) RPCGateway =
  rg_config :: RPCGatewayConfig
  rg_proxy :: 'p
  rg_hcm :: HealthCheckManager
  rg_server :: http_Server
  rg_metrics :: 'm

definition second :: int where
  "second = 1000000000"

text \<open>
  \<open>NewRPCGateway\<close>. The environment (\<open>os.Getenv\<close>), \<open>rpc.Dial\<close> and \<open>proxy.NewProxy\<close>
  are parameters; the proxy and the metrics server are values of any type. The router
  and its middleware, which only wrap the proxy as the server's handler, are left out of
  \<open>http_Server\<close>.
\<close>

definition NewRPCGateway ::
  "(string \<Rightarrow> string) \<Rightarrow> (string \<Rightarrow> go_error + rpc_Client) \<Rightarrow> (proxy_Config \<Rightarrow> go_error + 'p)
     \<Rightarrow> RPCGatewayConfig \<Rightarrow> 'm \<Rightarrow> go_error + ('p, 'm) RPCGateway"
where
  "NewRPCGateway Getenv Dial NewProxy cfg metricsServer =
     (let logLevel = (if Getenv ''DEBUG'' = ''true'' then LevelDebug else LevelWarn) in
      case NewHealthCheckManager Dial
             \<lparr>hcm_Targets = gw_Targets cfg,
              hcm_Config = gw_HealthChecks cfg,
              hcm_Logger = \<lparr>handler_level = logLevel, attrs = []\<rparr>\<rparr>
             (gw_Name cfg) of
        Inl err \<Rightarrow> Inl (WithMessage err ''healthcheckmanager failed'')
      | Inr hcm \<Rightarrow>
          (case NewProxy
                  \<lparr>pc_Proxy = gw_Proxy cfg,
                   pc_Targets = gw_Targets cfg,
                   pc_HealthChecks = gw_HealthChecks cfg,
                   pc_HealthcheckManager = hcm,
                   pc_Name = gw_Name cfg\<rparr> of
             Inl err \<Rightarrow> Inl (WithMessage err ''proxy failed'')
           | Inr p \<Rightarrow>
               Inr \<lparr>rg_config = cfg,
                    rg_proxy = p,
                    rg_hcm = hcm,
                    rg_server =
                      \<lparr>Addr = CHR '':'' # Port (gw_Proxy cfg),
                       WriteTimeout = second * 15,
                       ReadTimeout = second * 15,
                       ReadHeaderTimeout = second * 5\<rparr>,
                    rg_metrics = metricsServer\<rparr>))"

section \<open>Concrete inputs\<close>

text \<open>
  A configuration with \<open>FailureThreshold = 3\<close> and \<open>SuccessThreshold = 2\<close>, a dial that
  succeeds, the checker \<open>NewHealthChecker\<close> builds from them, and two probe errors: a
  transport error carrying the URL, and a plain one.
\<close>

definition demo_logger :: slog_Logger where
  "demo_logger = \<lparr>handler_level = LevelWarn, attrs = []\<rparr>"

definition demo_config :: HealthCheckerConfig where
  "demo_config =
     \<lparr>URL = ''https://node.example/key'',
      Name = ''primary'',
      Logger = demo_logger,
      Interval = 5 * second,
      Timeout = second,
      FailureThreshold = 3,
      SuccessThreshold = 2\<rparr>"

definition demo_Dial :: "string \<Rightarrow> go_error + rpc_Client" where
  "demo_Dial u = Inr \<lparr>endpoint = u, headers = []\<rparr>"

definition demo_checker :: HealthChecker where
  "demo_checker =
     \<lparr>client = \<lparr>endpoint = ''https://node.example/key'',
                 headers = [(''User-Agent'', ''rpc-gateway-health-check'')]\<rparr>,
      config = demo_config,
      logger = \<lparr>handler_level = LevelWarn,
                 attrs = [(''provider'', ''primary''), (''network'', ''mainnet''),
                          (''process'', ''healthcheck'')]\<rparr>,
      blockNumber = 0,
      gasLimit = 0,
      isHealthy = True\<rparr>"

definition demo_url_error :: go_error where
  "demo_url_error =
     UrlError ''Post'' ''https://node.example/key'' (PlainError ''connection refused'')"

definition demo_plain_error :: go_error where
  "demo_plain_error = PlainError ''context deadline exceeded''"

text \<open>A dial that fails for one URL, and a gateway configuration with that target second.\<close>

definition failing_Dial :: "string \<Rightarrow> go_error + rpc_Client" where
  "failing_Dial u =
     (if u = ''bad://node-b'' then Inl (PlainError ''no known transport for URL scheme'')
      else Inr \<lparr>endpoint = u, headers = []\<rparr>)"

definition demo_gateway_config :: RPCGatewayConfig where
  "demo_gateway_config =
     \<lparr>gw_Name = ''mainnet'',
      gw_Proxy = \<lparr>Port = ''3000''\<rparr>,
      gw_Targets =
        [\<lparr>target_Name = ''a'', target_URL = ''https://node-a''\<rparr>,
         \<lparr>target_Name = ''b'', target_URL = ''bad://node-b''\<rparr>,
         \<lparr>target_Name = ''c'', target_URL = ''https://node-c''\<rparr>],
      gw_HealthChecks =
        \<lparr>hc_Interval = 5 * second, hc_Timeout = second,
         hc_FailureThreshold = 3, hc_SuccessThreshold = 2\<rparr>\<rparr>"

definition demo_Getenv :: "string \<Rightarrow> string" where
  "demo_Getenv k = []"

definition demo_NewProxy :: "proxy_Config \<Rightarrow> go_error + proxy_Config" where
  "demo_NewProxy pc = Inr pc"

section \<open>Properties of the health checker\<close>

lemma checkAndSetBlockNumberHealth_Inl:
  "snd (checkAndSetBlockNumberHealth h (Inl e)) = h"
  by (simp add: checkAndSetBlockNumberHealth_def checkBlockNumber_def Let_def)

lemma checkAndSetBlockNumberHealth_Inr:
  "snd (checkAndSetBlockNumberHealth h (Inr n)) = h\<lparr>blockNumber := n\<rparr>"
  by (simp add: checkAndSetBlockNumberHealth_def checkBlockNumber_def)

text \<open>One probe cycle changes at most the block number.\<close>

lemma CheckAndSetHealth_only_blockNumber:
  "\<exists>b. snd (CheckAndSetHealth h r) = h\<lparr>blockNumber := b\<rparr>"
proof (cases r)
  case (Inl e)
  then have "snd (CheckAndSetHealth h r) = h\<lparr>blockNumber := blockNumber h\<rparr>"
    by (simp add: CheckAndSetHealth_def checkAndSetBlockNumberHealth_Inl)
  then show ?thesis by (rule exI)
next
  case (Inr n)
  then have "snd (CheckAndSetHealth h r) = h\<lparr>blockNumber := n\<rparr>"
    by (simp add: CheckAndSetHealth_def checkAndSetBlockNumberHealth_Inr)
  then show ?thesis by (rule exI)
qed

lemma ticker_loop_only_blockNumber:
  "\<exists>b. snd (ticker_loop h rs) = h\<lparr>blockNumber := b\<rparr>"
proof (induction rs arbitrary: h)
  case Nil
  have "snd (ticker_loop h []) = h\<lparr>blockNumber := blockNumber h\<rparr>" by simp
  then show ?case by (rule exI)
next
  case (Cons r rs)
  obtain lg h' where step: "CheckAndSetHealth h r = (lg, h')"
    by (cases "CheckAndSetHealth h r")
  obtain lgs h'' where rest: "ticker_loop h' rs = (lgs, h'')"
    by (cases "ticker_loop h' rs")
  from CheckAndSetHealth_only_blockNumber [of h r] step
  obtain b where a: "h' = h\<lparr>blockNumber := b\<rparr>" by auto
  from Cons.IH [of h'] rest
  obtain c where b: "h'' = h'\<lparr>blockNumber := c\<rparr>" by auto
  from a b have "h'' = h\<lparr>blockNumber := c\<rparr>" by simp
  with step rest have "snd (ticker_loop h (r # rs)) = h\<lparr>blockNumber := c\<rparr>" by simp
  then show ?case by (rule exI)
qed

lemma Start_only_blockNumber:
  "\<exists>b. snd (Start h r rs) = h\<lparr>blockNumber := b\<rparr>"
proof -
  obtain lg h' where step: "CheckAndSetHealth h r = (lg, h')"
    by (cases "CheckAndSetHealth h r")
  obtain lgs h'' where rest: "ticker_loop h' rs = (lgs, h'')"
    by (cases "ticker_loop h' rs")
  from CheckAndSetHealth_only_blockNumber [of h r] step
  obtain b where a: "h' = h\<lparr>blockNumber := b\<rparr>" by auto
  from ticker_loop_only_blockNumber [of h' rs] rest
  obtain c where b: "h'' = h'\<lparr>blockNumber := c\<rparr>" by auto
  from a b have "h'' = h\<lparr>blockNumber := c\<rparr>" by simp
  with step rest have "snd (Start h r rs) = h\<lparr>blockNumber := c\<rparr>"
    by (simp add: Start_def)
  then show ?thesis by (rule exI)
qed

lemma Start_isHealthy: "isHealthy (snd (Start h r rs)) = isHealthy h"
proof -
  from Start_only_blockNumber [of h r rs]
  obtain b where "snd (Start h r rs) = h\<lparr>blockNumber := b\<rparr>" ..
  then show ?thesis by simp
qed

lemma NewHealthChecker_isHealthy:
  "NewHealthChecker Dial cfg net = Inr h \<Longrightarrow> isHealthy h"
  by (auto simp: NewHealthChecker_def split: sum.splits)

lemma CheckAndSetHealth_isHealthy:
  "isHealthy (snd (CheckAndSetHealth h r)) = isHealthy h"
proof -
  from CheckAndSetHealth_only_blockNumber [of h r]
  obtain b where "snd (CheckAndSetHealth h r) = h\<lparr>blockNumber := b\<rparr>" ..
  then show ?thesis by simp
qed

text \<open>
  No run of the program reaches an Unhealthy state, and no probe cycle reads the two
  thresholds: the state after it is the same for any other values of them.
\<close>

lemma reachable_IsHealthy: "reachable h \<Longrightarrow> IsHealthy h"
proof (induction rule: reachable.induct)
  case (reachable_new Dial cfg networkName h)
  then show ?case by (simp add: IsHealthy_def NewHealthChecker_isHealthy)
next
  case (reachable_probe h r)
  then show ?case by (simp add: IsHealthy_def CheckAndSetHealth_isHealthy)
qed

lemma CheckAndSetHealth_ignores_thresholds:
  "snd (CheckAndSetHealth
          (h\<lparr>config := (config h)\<lparr>FailureThreshold := ft, SuccessThreshold := st\<rparr>\<rparr>) r)
     = (snd (CheckAndSetHealth h r))
         \<lparr>config := (config h)\<lparr>FailureThreshold := ft, SuccessThreshold := st\<rparr>\<rparr>"
  by (cases r)
     (simp_all add: CheckAndSetHealth_def checkAndSetBlockNumberHealth_Inl
        checkAndSetBlockNumberHealth_Inr)

lemma NewHealthChecker_demo:
  "NewHealthChecker demo_Dial demo_config ''mainnet'' = Inr demo_checker"
  by (simp add: NewHealthChecker_def demo_Dial_def demo_config_def demo_checker_def
      demo_logger_def SetHeader_def With_def userAgent_def)

lemma errors_As_clear_URL:
  "errors_As_UrlError e = Some (opn, u, inner) \<Longrightarrow>
   errors_As_UrlError (clear_URL e) = Some (opn, [], inner)"
  by (induction e) simp_all

lemma new_checkers_fails:
  "t \<in> set ts \<Longrightarrow> Dial (target_URL t) = Inl e \<Longrightarrow>
   \<exists>t0 e0. t0 \<in> set ts \<and> Dial (target_URL t0) = Inl e0 \<and>
     new_checkers Dial mc net ts = Inl e0"
proof (induction ts)
  case Nil
  then show ?case by simp
next
  case (Cons a ts)
  show ?case
  proof (cases "Dial (target_URL a)")
    case (Inl e1)
    then have "new_checkers Dial mc net (a # ts) = Inl e1"
      by (simp add: NewHealthChecker_def checker_config_def)
    with Inl show ?thesis by auto
  next
    case (Inr c)
    with Cons.prems have "t \<in> set ts" by auto
    from Cons.IH [OF this Cons.prems(2)]
    obtain t0 e0 where t0: "t0 \<in> set ts" "Dial (target_URL t0) = Inl e0"
      and r: "new_checkers Dial mc net ts = Inl e0" by blast
    from Inr r have "new_checkers Dial mc net (a # ts) = Inl e0"
      by (simp add: NewHealthChecker_def checker_config_def)
    with t0 show ?thesis by auto
  qed
qed

section \<open>The claims\<close>

text \<open>
  Claim C1. The claim, and the comment on the field (\<open>Try FailureThreshold times before
  marking as unhealthy\<close>): after \<open>FailureThreshold\<close> consecutive failed probes a Healthy
  checker is Unhealthy. What the code does at \<open>FailureThreshold = 3\<close>: the checker that
  \<open>NewHealthChecker\<close> built is Healthy, and after \<open>Start\<close> has run three failed probes in
  a row (the first at once, two on ticks) \<open>IsHealthy\<close> still returns true.
\<close>

theorem C1_failures_at_threshold_stay_healthy:
  "NewHealthChecker demo_Dial demo_config ''mainnet'' = Inr demo_checker \<and>
   FailureThreshold (config demo_checker) = 3 \<and>
   IsHealthy demo_checker = True \<and>
   IsHealthy (snd (Start demo_checker (Inl demo_plain_error)
                     [Inl demo_plain_error, Inl demo_plain_error])) = True"
proof -
  have t: "FailureThreshold (config demo_checker) = 3"
    by (simp add: demo_checker_def demo_config_def)
  have h: "isHealthy demo_checker"
    by (simp add: demo_checker_def)
  from NewHealthChecker_demo t h show ?thesis
    by (simp add: IsHealthy_def Start_isHealthy)
qed

text \<open>
  Claim C2. Whatever the outcomes of the block-number probes that \<open>Start\<close> runs (the one
  at once and those of any number \<open>k\<close> of the ticks), a checker built by
  \<open>NewHealthChecker\<close> still reports \<open>IsHealthy\<close> true afterwards, and its state differs
  from the initial one in the block number at most.
\<close>

theorem C2_probe_loop_never_changes_health:
  assumes "NewHealthChecker Dial cfg net = Inr h"
  shows "IsHealthy (snd (Start h r (take k rs))) = True \<and>
         (\<exists>b. snd (Start h r (take k rs)) = h\<lparr>blockNumber := b\<rparr>)"
proof -
  from assms have "isHealthy h" by (rule NewHealthChecker_isHealthy)
  then have "IsHealthy (snd (Start h r (take k rs))) = True"
    by (simp add: IsHealthy_def Start_isHealthy)
  with Start_only_blockNumber [of h r "take k rs"] show ?thesis by simp
qed

theorem C2_probe_loop_never_changes_health_witness:
  "NewHealthChecker demo_Dial demo_config ''mainnet'' = Inr demo_checker \<and>
   IsHealthy (snd (Start demo_checker (Inl demo_url_error)
                     (take 3 [Inr 100, Inl demo_plain_error, Inl demo_plain_error,
                              Inr 101]))) = True"
  using C2_probe_loop_never_changes_health [OF NewHealthChecker_demo,
      of "Inl demo_url_error" 3
         "[Inr 100, Inl demo_plain_error, Inl demo_plain_error, Inr 101]"]
    NewHealthChecker_demo
  by simp

text \<open>
  Claim C4. A call of \<open>checkAndSetGasLeftHealth\<close> with a failed gas-left probe leaves
  \<open>isHealthy\<close> false, and one with a successful probe leaves \<open>isHealthy\<close> true and
  \<open>gasLimit\<close> at the probe's value, whatever the state and the configuration were
  before; the health flag and the gas limit after the call are the same for any other
  values of \<open>FailureThreshold\<close> and \<open>SuccessThreshold\<close>.
\<close>

theorem C4_gas_left_ignores_thresholds:
  "IsHealthy (snd (checkAndSetGasLeftHealth h (g, Some e))) = False \<and>
   IsHealthy (snd (checkAndSetGasLeftHealth h (g, None))) = True \<and>
   GasLimit (snd (checkAndSetGasLeftHealth h (g, None))) = g \<and>
   IsHealthy (snd (checkAndSetGasLeftHealth
       (h\<lparr>config := (config h)\<lparr>FailureThreshold := ft, SuccessThreshold := st\<rparr>\<rparr>) p))
     = IsHealthy (snd (checkAndSetGasLeftHealth h p)) \<and>
   GasLimit (snd (checkAndSetGasLeftHealth
       (h\<lparr>config := (config h)\<lparr>FailureThreshold := ft, SuccessThreshold := st\<rparr>\<rparr>) p))
     = GasLimit (snd (checkAndSetGasLeftHealth h p))"
  by (cases p)
     (simp add: IsHealthy_def GasLimit_def checkAndSetGasLeftHealth_def checkGasLimit_def
        split: option.splits)

text \<open>
  Claim C5. A health checker that \<open>NewHealthChecker\<close> has just built is in the Healthy
  state: before any probe, \<open>IsHealthy\<close> returns true.
\<close>

theorem C5_new_checker_is_healthy:
  "NewHealthChecker Dial cfg net = Inr h \<Longrightarrow> IsHealthy h = True"
  by (simp add: IsHealthy_def NewHealthChecker_isHealthy)

theorem C5_new_checker_is_healthy_witness:
  "NewHealthChecker demo_Dial demo_config ''mainnet'' = Inr demo_checker \<and>
   IsHealthy demo_checker = True"
  using C5_new_checker_is_healthy [OF NewHealthChecker_demo] NewHealthChecker_demo
  by simp

text \<open>
  Claim C6. After a block-number probe that succeeded with the value \<open>n\<close>, the stored
  block number is \<open>n\<close> and \<open>BlockNumber\<close> returns it, in any state of the checker; the
  health flag is the one from before the probe.
\<close>

theorem C6_successful_probe_records_block_number:
  "BlockNumber (snd (checkAndSetBlockNumberHealth h (Inr n))) = n \<and>
   BlockNumber (snd (CheckAndSetHealth h (Inr n))) = n \<and>
   IsHealthy (snd (CheckAndSetHealth h (Inr n))) = IsHealthy h"
  by (simp add: BlockNumber_def IsHealthy_def CheckAndSetHealth_def
      checkAndSetBlockNumberHealth_Inr)

text \<open>
  Claim C7. A block-number probe that failed leaves the checker as it was: the whole
  state is unchanged, so \<open>BlockNumber\<close>, \<open>GasLimit\<close> and \<open>IsHealthy\<close> return what they
  returned before.
\<close>

theorem C7_failed_probe_changes_nothing:
  "snd (checkAndSetBlockNumberHealth h (Inl e)) = h \<and>
   BlockNumber (snd (checkAndSetBlockNumberHealth h (Inl e))) = BlockNumber h \<and>
   GasLimit (snd (checkAndSetBlockNumberHealth h (Inl e))) = GasLimit h \<and>
   IsHealthy (snd (checkAndSetBlockNumberHealth h (Inl e))) = IsHealthy h"
  by (simp add: checkAndSetBlockNumberHealth_Inl)

text \<open>
  Claim C8. When the RPC call fails with an error in which \<open>errors.As\<close> finds a
  \<open>url.Error\<close>, \<open>checkBlockNumber\<close> logs and returns that error with the URL of the
  \<open>url.Error\<close> emptied, next to the value 0; the error logged is the error returned. An
  error without a \<open>url.Error\<close> is logged and returned as it is. When the call succeeds
  with \<open>n\<close>, \<open>n\<close> is returned with a nil error.
\<close>

theorem C8_checkBlockNumber_strips_url:
  "(errors_As_UrlError e = Some (opn, u, inner) \<longrightarrow>
      checkBlockNumber h (Inl e) =
        ([slog_Error (logger h) ''could not fetch block number'' ''error'' (clear_URL e)],
         0, Some (clear_URL e)) \<and>
      errors_As_UrlError (clear_URL e) = Some (opn, [], inner)) \<and>
   (errors_As_UrlError e2 = None \<longrightarrow>
      checkBlockNumber h (Inl e2) =
        ([slog_Error (logger h) ''could not fetch block number'' ''error'' e2], 0, Some e2)) \<and>
   checkBlockNumber h (Inr n) =
     ([slog_Info (logger h) ''fetch block number completed'' ''blockNumber'' n], n, None)"
  by (simp add: checkBlockNumber_def Let_def errors_As_clear_URL)

theorem C8_checkBlockNumber_strips_url_witness:
  "errors_As_UrlError demo_url_error
     = Some (''Post'', ''https://node.example/key'', PlainError ''connection refused'') \<and>
   snd (checkBlockNumber demo_checker (Inl demo_url_error))
     = (0, Some (UrlError ''Post'' [] (PlainError ''connection refused''))) \<and>
   errors_As_UrlError demo_plain_error = None \<and>
   snd (checkBlockNumber demo_checker (Inl demo_plain_error)) = (0, Some demo_plain_error)"
  using C8_checkBlockNumber_strips_url [of demo_url_error "''Post''"
      "''https://node.example/key''" "PlainError ''connection refused''" demo_checker
      demo_plain_error 0]
  by (simp add: demo_url_error_def demo_plain_error_def)

text \<open>
  Claim C10. When \<open>rpc.Dial\<close> fails for the URL of one of the configured targets,
  \<open>NewHealthChecker\<close> returns that error for the target, and \<open>NewRPCGateway\<close> returns an
  error and no gateway: the dial error of a configured target, wrapped with
  "healthcheckmanager failed".
\<close>

theorem C10_dial_failure_fails_gateway:
  assumes "t \<in> set (gw_Targets cfg)" and "Dial (target_URL t) = Inl e"
  shows "NewHealthChecker Dial (checker_config mc t) net = Inl e \<and>
         (\<exists>t0 e0. t0 \<in> set (gw_Targets cfg) \<and> Dial (target_URL t0) = Inl e0 \<and>
            NewRPCGateway Getenv Dial NewProxy cfg metricsServer
              = Inl (WithMessage e0 ''healthcheckmanager failed''))"
proof -
  from assms(2) have a: "NewHealthChecker Dial (checker_config mc t) net = Inl e"
    by (simp add: NewHealthChecker_def checker_config_def)
  define mc' where "mc' =
    \<lparr>hcm_Targets = gw_Targets cfg, hcm_Config = gw_HealthChecks cfg,
     hcm_Logger = \<lparr>handler_level = (if Getenv ''DEBUG'' = ''true'' then LevelDebug else LevelWarn),
                   attrs = []\<rparr>\<rparr>"
  from new_checkers_fails [where Dial = Dial and t = t and e = e and ts = "gw_Targets cfg"
      and mc = mc' and net = "gw_Name cfg", OF assms]
  obtain t0 e0 where t0: "t0 \<in> set (gw_Targets cfg)" "Dial (target_URL t0) = Inl e0"
    and r: "new_checkers Dial mc' (gw_Name cfg) (gw_Targets cfg) = Inl e0" by blast
  from r have "NewHealthCheckManager Dial mc' (gw_Name cfg) = Inl e0"
    by (simp add: NewHealthCheckManager_def mc'_def)
  then have "NewRPCGateway Getenv Dial NewProxy cfg metricsServer
      = Inl (WithMessage e0 ''healthcheckmanager failed'')"
    by (simp add: NewRPCGateway_def mc'_def Let_def)
  with a t0 show ?thesis by blast
qed

theorem C10_dial_failure_fails_gateway_witness:
  "\<lparr>target_Name = ''b'', target_URL = ''bad://node-b''\<rparr> \<in> set (gw_Targets demo_gateway_config) \<and>
   failing_Dial ''bad://node-b'' = Inl (PlainError ''no known transport for URL scheme'') \<and>
   (\<exists>t0 e0. t0 \<in> set (gw_Targets demo_gateway_config) \<and> failing_Dial (target_URL t0) = Inl e0 \<and>
      NewRPCGateway demo_Getenv failing_Dial demo_NewProxy demo_gateway_config ()
        = Inl (WithMessage e0 ''healthcheckmanager failed''))"
proof -
  have m: "\<lparr>target_Name = ''b'', target_URL = ''bad://node-b''\<rparr> \<in> set (gw_Targets demo_gateway_config)"
    by (simp add: demo_gateway_config_def)
  have d: "failing_Dial (target_URL \<lparr>target_Name = ''b'', target_URL = ''bad://node-b''\<rparr>)
      = Inl (PlainError ''no known transport for URL scheme'')"
    by (simp add: failing_Dial_def)
  from C10_dial_failure_fails_gateway [where Dial = failing_Dial
      and t = "\<lparr>target_Name = ''b'', target_URL = ''bad://node-b''\<rparr>"
      and e = "PlainError ''no known transport for URL scheme''"
      and cfg = demo_gateway_config and Getenv = demo_Getenv and NewProxy = demo_NewProxy
      and metricsServer = "()" and net = "''mainnet''"
      and mc = "\<lparr>hcm_Targets = [], hcm_Config = gw_HealthChecks demo_gateway_config,
                 hcm_Logger = demo_logger\<rparr>", OF m d]
  have "\<exists>t0 e0. t0 \<in> set (gw_Targets demo_gateway_config) \<and> failing_Dial (target_URL t0) = Inl e0 \<and>
      NewRPCGateway demo_Getenv failing_Dial demo_NewProxy demo_gateway_config ()
        = Inl (WithMessage e0 ''healthcheckmanager failed'')"
    by blast
  with m d show ?thesis by simp
qed

end
